theory Spec2Isabelle
  imports Main "HOL-Library.AList"
begin

section \<open>Asynchronous task orchestration: shared data\<close>

text \<open>
  The development embeds the task layer of two iterations of the service: \<open>app10\<close>
  (\<open>worker.py\<close>, \<open>api/endpoints.py\<close>, \<open>api/schemas.py\<close>, \<open>database/models.py\<close>) and
  \<open>app9\<close> (\<open>worker.py\<close>, \<open>api/endpoints.py\<close>, \<open>api/schemas.py\<close>, with the ORM classes
  of \<open>app09/database/models.py\<close>).

  A timestamp is an integer count of microseconds (the resolution of Python's
  \<open>datetime\<close>); the difference of two timestamps is a \<open>timedelta\<close>, and
  \<open>total_seconds()\<close> is that difference read in seconds. JSON payloads are
  association lists from keys to values, in insertion order as Python dictionaries are.
  Message texts are written without diacritical marks.
  The database is taken to be reachable: the \<open>except\<close> branches that roll a
  transaction back after a driver error are not part of the model.
\<close>

type_synonym tempo = int

datatype valor = VStr string | VNum int | VNulo | VDict "(string \<times> valor) list"

type_synonym dicionario = "(string \<times> valor) list"

text \<open>
  The exceptions that the modelled code raises itself, and \<open>Excecao\<close> for an exception
  that an executor raised: it is given by the text \<open>str(e)\<close>, which is all the worker
  reads of it.
\<close>

datatype excecao =
    HTTPException nat string
  | ValidationError string
  | AttributeError string
  | IntegrityError string
  | TypeError string
  | Excecao string

text \<open>Python truthiness of an optional dictionary and of an optional string:
  \<open>None\<close>, \<open>{}\<close> and \<open>""\<close> are false.\<close>

fun verdadeiro_dict :: "dicionario option \<Rightarrow> bool" where
  "verdadeiro_dict None = False"
| "verdadeiro_dict (Some d) = (d \<noteq> [])"

fun verdadeiro_str :: "string option \<Rightarrow> bool" where
  "verdadeiro_str None = False"
| "verdadeiro_str (Some s) = (s \<noteq> [])"

section \<open>Tables\<close>

text \<open>
  A table is the list of its rows in insertion order, and \<open>chave\<close> reads the column
  that carries the unique index (\<open>task_id\<close> in both task tables).
\<close>

text \<open>\<open>db.query(T).filter(T.task_id == task_id).first()\<close>\<close>

definition buscar :: "('a \<Rightarrow> string) \<Rightarrow> string \<Rightarrow> 'a list \<Rightarrow> 'a option" where
  "buscar chave tid db = find (\<lambda>t. chave t = tid) db"

text \<open>Committing the attribute changes made to the row that the query returned.\<close>

fun gravar :: "('a \<Rightarrow> string) \<Rightarrow> string \<Rightarrow> 'a \<Rightarrow> 'a list \<Rightarrow> 'a list" where
  "gravar chave tid nova [] = []"
| "gravar chave tid nova (t # ts) =
     (if chave t = tid then nova # ts else t # gravar chave tid nova ts)"

text \<open>\<open>db.add(row); db.commit()\<close>: the unique index rejects a second row with the
  same key.\<close>

definition inserir :: "('a \<Rightarrow> string) \<Rightarrow> 'a \<Rightarrow> 'a list \<Rightarrow> excecao + 'a list" where
  "inserir chave nova db =
     (case buscar chave (chave nova) db of
        Some _ \<Rightarrow> Inl (IntegrityError ''UNIQUE constraint failed: task_id'')
      | None \<Rightarrow> Inr (db @ [nova]))"

section \<open>app10: the task table\<close>

text \<open>
  \<open>class Tarefa(Base)\<close> of \<open>app10/database/models.py\<close>. The surrogate key \<open>id\<close> is
  left out: rows are identified by \<open>task_id\<close>, which the table declares unique.
\<close>

record tarefa =
  task_id :: string
  tipo :: string
  status :: string
  dados_entrada :: "dicionario option"
  resultado :: "dicionario option"
  erro :: "string option"
  timestamp_inicio :: "tempo option"
  timestamp_atualizacao :: "tempo option"
  duracao :: "tempo option"

type_synonym banco = "tarefa list"

definition buscar_tarefa :: "string \<Rightarrow> banco \<Rightarrow> tarefa option" where
  "buscar_tarefa tid db = buscar task_id tid db"

section \<open>app10: the worker\<close>

text \<open>
  \<open>atualizar_status_tarefa(task_id, status, resultado=None, erro=None)\<close> of
  \<open>app10/worker.py\<close>. The two calls of \<open>datetime.utcnow()\<close> (for the duration and for
  \<open>timestamp_atualizacao\<close>) are the two clock readings \<open>agora_d\<close> and \<open>agora_a\<close>;
  the first is read only on the branch that computes the duration. The column is a
  \<open>DateTime\<close>, so the \<open>isinstance(inicio, str)\<close> branch is not taken.
\<close>

definition atualizar_status_tarefa ::
  "string \<Rightarrow> string \<Rightarrow> dicionario option \<Rightarrow> string option \<Rightarrow> tempo \<Rightarrow> tempo \<Rightarrow> banco
     \<Rightarrow> bool \<times> banco" where
  "atualizar_status_tarefa tid st res err agora_d agora_a db =
     (case buscar_tarefa tid db of
        None \<Rightarrow> (False, db)
      | Some t0 \<Rightarrow>
          let t1 = t0\<lparr>status := st\<rparr>;
              t2 = (if verdadeiro_dict res then t1\<lparr>resultado := res\<rparr> else t1);
              t3 = (if verdadeiro_str err then t2\<lparr>erro := err\<rparr> else t2);
              t4 = (case timestamp_inicio t3 of
                      Some inicio \<Rightarrow>
                        if st \<in> set [''concluida'', ''falha'']
                        then t3\<lparr>duracao := Some (agora_d - inicio)\<rparr> else t3
                    | None \<Rightarrow> t3);
              t5 = t4\<lparr>timestamp_atualizacao := Some agora_a\<rparr>
          in (True, gravar task_id tid t5 db))"

text \<open>
  The readings one run of a Celery task takes from its environment: the clock at the
  claim write, the elapsed \<open>time.time()\<close> of the executor call, the ISO text of
  \<open>datetime.utcnow()\<close> put into the result, and the two clock readings of the final
  write.
\<close>

record leituras =
  l_claim :: tempo
  l_exec :: int
  l_iso :: string
  l_fim_d :: tempo
  l_fim_a :: tempo

text \<open>\<open>algoritmo or modelo.algoritmo\<close>\<close>

fun ou_str :: "string option \<Rightarrow> string \<Rightarrow> string" where
  "ou_str None b = b"
| "ou_str (Some a) b = (if a = [] then b else a)"

text \<open>
  \<open>treinar_modelo(self, dados, algoritmo)\<close>, the Celery task. \<open>tid\<close> is
  \<open>self.request.id\<close>; \<open>modelo_treinar\<close> is what the executor call
  \<open>modelo.treinar(dados, algoritmo)\<close> does: it returns the metrics (\<open>Inr\<close>) or
  raises an exception \<open>e\<close>, given by the text \<open>str(e)\<close> (\<open>Inl\<close>);
  \<open>modelo_algoritmo\<close> is the attribute \<open>modelo.algoritmo\<close>. The training data
  are used by the executor only and are not a parameter here. The value has three parts:
  the returned dictionary (\<open>Inr\<close>) or the exception that the final \<open>raise\<close> hands on
  to Celery (\<open>Inl\<close>); the table as the first status write leaves it, which is what a
  status query sees while the executor runs; and the table as the last status write
  leaves it.
\<close>

definition treinar_modelo ::
  "(string + dicionario) \<Rightarrow> string \<Rightarrow> leituras \<Rightarrow> string \<Rightarrow> string option \<Rightarrow> banco
     \<Rightarrow> (excecao + dicionario) \<times> banco \<times> banco" where
  "treinar_modelo modelo_treinar modelo_algoritmo l tid algoritmo db =
     (let db1 = snd (atualizar_status_tarefa tid ''em_progresso'' None None
                       (l_claim l) (l_claim l) db)
      in case modelo_treinar of
           Inr metricas \<Rightarrow>
             let res = AList.update ''timestamp'' (VStr (l_iso l))
                         (AList.update ''tempo_treinamento'' (VNum (l_exec l))
                           (AList.update ''algoritmo''
                              (VStr (ou_str algoritmo modelo_algoritmo)) metricas));
                 db2 = snd (atualizar_status_tarefa tid ''concluida'' (Some res) None
                              (l_fim_d l) (l_fim_a l) db1)
             in (Inr res, db1, db2)
         | Inl msg \<Rightarrow>
             let db2 = snd (atualizar_status_tarefa tid ''falha'' None (Some msg)
                              (l_fim_d l) (l_fim_a l) db1)
             in (Inl (Excecao msg), db1, db2))"

text \<open>\<open>realizar_previsao(self, dados)\<close>; \<open>modelo_prever\<close> is what the executor
  call \<open>modelo.prever(dados)\<close> does, returning the pair of price and confidence or
  raising. The value has the same three parts.\<close>

definition realizar_previsao ::
  "(string + valor \<times> valor) \<Rightarrow> string \<Rightarrow> leituras \<Rightarrow> string \<Rightarrow> banco
     \<Rightarrow> (excecao + dicionario) \<times> banco \<times> banco" where
  "realizar_previsao modelo_prever modelo_algoritmo l tid db =
     (let db1 = snd (atualizar_status_tarefa tid ''em_progresso'' None None
                       (l_claim l) (l_claim l) db)
      in case modelo_prever of
           Inr (preco_previsto, confianca) \<Rightarrow>
             let res = [(''preco_previsto'', preco_previsto),
                        (''confianca'', confianca),
                        (''modelo_usado'', VStr modelo_algoritmo),
                        (''tempo_predicao'', VNum (l_exec l)),
                        (''timestamp'', VStr (l_iso l))];
                 db2 = snd (atualizar_status_tarefa tid ''concluida'' (Some res) None
                              (l_fim_d l) (l_fim_a l) db1)
             in (Inr res, db1, db2)
         | Inl msg \<Rightarrow>
             let db2 = snd (atualizar_status_tarefa tid ''falha'' None (Some msg)
                              (l_fim_d l) (l_fim_a l) db1)
             in (Inl (Excecao msg), db1, db2))"

text \<open>
  \<open>limpar_tarefas_antigas(dias)\<close>. \<open>worker.py\<close> imports the name \<open>datetime\<close> with
  \<open>from datetime import datetime\<close>, so \<open>datetime.timedelta\<close> is an attribute lookup
  on the class \<open>datetime.datetime\<close>, whose attributes are listed below. The lookup is
  inside the inner \<open>try\<close>: on an exception the session is rolled back and the exception
  raised again.
\<close>

definition atributos_datetime :: "string list" where
  "atributos_datetime =
     [''min'', ''max'', ''resolution'', ''today'', ''now'', ''utcnow'', ''fromtimestamp'',
      ''utcfromtimestamp'', ''fromordinal'', ''combine'', ''fromisoformat'',
      ''fromisocalendar'', ''strptime'', ''year'', ''month'', ''day'', ''hour'', ''minute'',
      ''second'', ''microsecond'', ''tzinfo'', ''fold'', ''date'', ''time'', ''timetz'',
      ''replace'', ''astimezone'', ''utcoffset'', ''dst'', ''tzname'', ''timetuple'',
      ''utctimetuple'', ''toordinal'', ''timestamp'', ''weekday'', ''isoweekday'',
      ''isocalendar'', ''isoformat'', ''ctime'', ''strftime'']"

definition getattr_datetime :: "string \<Rightarrow> excecao + string" where
  "getattr_datetime nome =
     (if nome \<in> set atributos_datetime then Inr nome
      else Inl (AttributeError
        (''type object 'datetime.datetime' has no attribute '' @ [CHR 0x27] @ nome
           @ [CHR 0x27])))"

definition mais_antiga :: "tempo \<Rightarrow> tarefa \<Rightarrow> bool" where
  "mais_antiga data_limite t =
     (case timestamp_atualizacao t of Some a \<Rightarrow> a < data_limite | None \<Rightarrow> False)"

definition limpar_tarefas_antigas ::
  "int \<Rightarrow> tempo \<Rightarrow> banco \<Rightarrow> (excecao + dicionario) \<times> banco" where
  "limpar_tarefas_antigas dias agora db =
     (case getattr_datetime ''timedelta'' of
        Inl e \<Rightarrow> (Inl e, db)
      | Inr _ \<Rightarrow>
          let data_limite = agora - dias * 86400000000;
              removidas = length (filter (mais_antiga data_limite) db)
          in (Inr [(''tarefas_removidas'', VNum (int removidas))],
              filter (\<lambda>t. \<not> mais_antiga data_limite t) db))"

section \<open>app10: submission and status query\<close>

text \<open>
  \<open>class StatusTarefa(BaseModel)\<close> of \<open>app10/api/schemas.py\<close>. Constructing it
  validates the fields: \<open>status\<close> must be a value of \<open>StatusTarefaEnum\<close> and the two
  timestamps are required.
\<close>

record StatusTarefa =
  st_task_id :: string
  st_status :: string
  st_resultado :: "dicionario option"
  st_erro :: "string option"
  st_timestamp_inicio :: tempo
  st_timestamp_atualizacao :: tempo

definition StatusTarefaEnum :: "string list" where
  "StatusTarefaEnum = [''pendente'', ''em_progresso'', ''concluida'', ''falha'']"

definition novo_StatusTarefa ::
  "string \<Rightarrow> string \<Rightarrow> dicionario option \<Rightarrow> string option \<Rightarrow> tempo option \<Rightarrow> tempo option
     \<Rightarrow> excecao + StatusTarefa" where
  "novo_StatusTarefa tid st res err inicio atualizacao =
     (if st \<notin> set StatusTarefaEnum then Inl (ValidationError ''StatusTarefa'')
      else case inicio of
        None \<Rightarrow> Inl (ValidationError ''StatusTarefa'')
      | Some i \<Rightarrow>
         (case atualizacao of
            None \<Rightarrow> Inl (ValidationError ''StatusTarefa'')
          | Some a \<Rightarrow>
              Inr \<lparr>st_task_id = tid, st_status = st, st_resultado = res, st_erro = err,
                   st_timestamp_inicio = i, st_timestamp_atualizacao = a\<rparr>))"

text \<open>A message on the broker queue: the task id, the task name and its arguments.\<close>

datatype argumentos = ArgsPrevisao dicionario | ArgsTreinamento "dicionario list" string

record mensagem =
  m_task_id :: string
  m_nome :: string
  m_args :: argumentos

text \<open>
  \<open>prever\<close> with \<open>async_task=True\<close> and the model loaded (lines 100 to 124).
  \<open>novo_id\<close> is \<open>str(uuid.uuid4())\<close>, \<open>agora\<close> the \<open>datetime.utcnow()\<close> passed
  as \<open>timestamp_inicio\<close>, and \<open>agora_padrao\<close> the clock reading of the column
  default of \<open>timestamp_atualizacao\<close>. \<open>prever_registrar\<close> is the part up to
  \<open>db.commit()\<close>, \<open>prever_enfileirar\<close> is \<open>realizar_previsao.apply_async\<close>; the
  broker is taken to be reachable. The value of \<open>prever\<close> is the response or the
  exception, the table and the queue as the call leaves them, and the states of table and
  queue that the call goes through, one after each effect and in their order.
\<close>

definition prever_registrar ::
  "string \<Rightarrow> tempo \<Rightarrow> tempo \<Rightarrow> dicionario \<Rightarrow> banco \<Rightarrow> excecao + banco" where
  "prever_registrar novo_id agora agora_padrao dados db =
     inserir task_id
       \<lparr>task_id = novo_id, tipo = ''predicao'', status = ''pendente'',
        dados_entrada = Some dados, resultado = None, erro = None,
        timestamp_inicio = Some agora, timestamp_atualizacao = Some agora_padrao,
        duracao = None\<rparr> db"

definition prever_enfileirar :: "string \<Rightarrow> dicionario \<Rightarrow> mensagem list \<Rightarrow> mensagem list" where
  "prever_enfileirar novo_id dados fila =
     fila @ [\<lparr>m_task_id = novo_id, m_nome = ''realizar_previsao'',
              m_args = ArgsPrevisao dados\<rparr>]"

definition prever ::
  "string \<Rightarrow> tempo \<Rightarrow> tempo \<Rightarrow> dicionario \<Rightarrow> banco \<Rightarrow> mensagem list
     \<Rightarrow> (excecao + StatusTarefa) \<times> banco \<times> mensagem list \<times> (banco \<times> mensagem list) list" where
  "prever novo_id agora agora_padrao dados db fila =
     (case prever_registrar novo_id agora agora_padrao dados db of
        Inl e \<Rightarrow> (Inl e, db, fila, [])
      | Inr db1 \<Rightarrow>
          let fila1 = prever_enfileirar novo_id dados fila
          in (novo_StatusTarefa novo_id ''pendente'' None None (Some agora)
                (Some agora_padrao),
              db1, fila1, [(db1, fila), (db1, fila1)]))"

text \<open>
  \<open>treinar\<close> with \<open>dados.async_task\<close> set (lines 173 to 210): \<open>dados\<close> is
  \<open>dados.dados\<close> and \<open>algoritmo\<close> the value of \<open>dados.algoritmo\<close>.
\<close>

definition treinar_registrar ::
  "string \<Rightarrow> tempo \<Rightarrow> tempo \<Rightarrow> dicionario list \<Rightarrow> string \<Rightarrow> banco \<Rightarrow> excecao + banco" where
  "treinar_registrar novo_id agora agora_padrao dados algoritmo db =
     inserir task_id
       \<lparr>task_id = novo_id, tipo = ''treinamento'', status = ''pendente'',
        dados_entrada = Some [(''algoritmo'', VStr algoritmo),
                              (''registros'', VNum (int (length dados)))],
        resultado = None, erro = None,
        timestamp_inicio = Some agora, timestamp_atualizacao = Some agora_padrao,
        duracao = None\<rparr> db"

definition treinar_enfileirar ::
  "string \<Rightarrow> dicionario list \<Rightarrow> string \<Rightarrow> mensagem list \<Rightarrow> mensagem list" where
  "treinar_enfileirar novo_id dados algoritmo fila =
     fila @ [\<lparr>m_task_id = novo_id, m_nome = ''treinar_modelo'',
              m_args = ArgsTreinamento dados algoritmo\<rparr>]"

definition treinar ::
  "string \<Rightarrow> tempo \<Rightarrow> tempo \<Rightarrow> dicionario list \<Rightarrow> string \<Rightarrow> banco \<Rightarrow> mensagem list
     \<Rightarrow> (excecao + StatusTarefa) \<times> banco \<times> mensagem list \<times> (banco \<times> mensagem list) list" where
  "treinar novo_id agora agora_padrao dados algoritmo db fila =
     (if length dados < 10
      then (Inl (HTTPException 400
              ''Quantidade insuficiente de dados para treinamento. Minimo: 10 registros.''),
            db, fila, [])
      else case treinar_registrar novo_id agora agora_padrao dados algoritmo db of
        Inl e \<Rightarrow> (Inl e, db, fila, [])
      | Inr db1 \<Rightarrow>
          let fila1 = treinar_enfileirar novo_id dados algoritmo fila
          in (novo_StatusTarefa novo_id ''pendente'' None None (Some agora)
                (Some agora_padrao),
              db1, fila1, [(db1, fila), (db1, fila1)]))"

text \<open>\<open>verificar_status_tarefa(task_id, db)\<close>: the status query. It returns the response
  or raises, together with the table as the call leaves it.\<close>

definition verificar_status_tarefa ::
  "string \<Rightarrow> banco \<Rightarrow> (excecao + StatusTarefa) \<times> banco" where
  "verificar_status_tarefa tid db =
     (case buscar_tarefa tid db of
        None \<Rightarrow> (Inl (HTTPException 404 (''Tarefa nao encontrada: '' @ tid)), db)
      | Some t \<Rightarrow>
          (novo_StatusTarefa (task_id t) (status t) (resultado t) (erro t)
             (timestamp_inicio t) (timestamp_atualizacao t), db))"

section \<open>app9: the task table\<close>

text \<open>
  The enumerations \<open>StatusTarefa\<close> and \<open>TipoTarefa\<close> and the class
  \<open>TarefaAssincrona\<close> of \<open>app09/database/models.py\<close> (the foreign key
  \<open>modelo_id\<close> and the relationships are left out). Both enumerations derive from
  \<open>str\<close>, and each member's value is its name.
\<close>

datatype StatusTarefa9 = PENDENTE | EM_PROGRESSO | CONCLUIDO | FALHA | CANCELADO

datatype TipoTarefa = TREINAMENTO | PREVISAO | PREVISAO_LOTE | OUTRO

fun valor_status :: "StatusTarefa9 \<Rightarrow> string" where
  "valor_status PENDENTE = ''PENDENTE''"
| "valor_status EM_PROGRESSO = ''EM_PROGRESSO''"
| "valor_status CONCLUIDO = ''CONCLUIDO''"
| "valor_status FALHA = ''FALHA''"
| "valor_status CANCELADO = ''CANCELADO''"

fun valor_tipo :: "TipoTarefa \<Rightarrow> string" where
  "valor_tipo TREINAMENTO = ''TREINAMENTO''"
| "valor_tipo PREVISAO = ''PREVISAO''"
| "valor_tipo PREVISAO_LOTE = ''PREVISAO_LOTE''"
| "valor_tipo OUTRO = ''OUTRO''"

text \<open>Assigning a string to the \<open>Enum(StatusTarefa)\<close> column: the member of that
  name, if there is one.\<close>

definition status_de_nome :: "string \<Rightarrow> StatusTarefa9 option" where
  "status_de_nome n =
     find (\<lambda>s. valor_status s = n) [PENDENTE, EM_PROGRESSO, CONCLUIDO, FALHA, CANCELADO]"

record TarefaAssincrona =
  ta_task_id :: string
  ta_tipo :: TipoTarefa
  ta_status :: StatusTarefa9
  ta_timestamp_criacao :: tempo
  ta_timestamp_inicio :: "tempo option"
  ta_timestamp_fim :: "tempo option"
  ta_descricao :: "string option"
  ta_parametros :: "dicionario option"
  ta_resultado :: "valor option"
  ta_erro :: "string option"

type_synonym banco9 = "TarefaAssincrona list"

definition buscar_assincrona :: "string \<Rightarrow> banco9 \<Rightarrow> TarefaAssincrona option" where
  "buscar_assincrona tid db = buscar ta_task_id tid db"

text \<open>The property \<open>TarefaAssincrona.duracao\<close>: a \<open>datetime\<close> is true whenever it is
  not \<open>None\<close>.\<close>

definition TarefaAssincrona_duracao :: "TarefaAssincrona \<Rightarrow> tempo option" where
  "TarefaAssincrona_duracao t =
     (case ta_timestamp_inicio t of
        None \<Rightarrow> None
      | Some inicio \<Rightarrow>
          (case ta_timestamp_fim t of
             None \<Rightarrow> None
           | Some fim \<Rightarrow> Some (fim - inicio)))"

section \<open>app9: the worker's status updater\<close>

text \<open>
  \<open>atualizar_status_tarefa(task_id, status, resultado=None, erro=None)\<close> of
  \<open>app9/worker.py\<close>. The function has no \<open>return\<close> statement: its value is Python's
  \<open>None\<close>, written \<open>None\<close> here, where \<open>Some b\<close> would be a returned Boolean.
  The query is written against the name \<open>StatusTarefa\<close>, which the models module
  binds to the enumeration and not to a mapped class; \<open>mapeada\<close> says whether the
  ORM accepts the query. When it does not, the exception is caught by
  \<open>except Exception\<close> and only logged. The same holds for a commit that the
  enumeration column rejects. The argument \<open>resultado\<close> is given by the text
  \<open>str(resultado)\<close>, which is all the function reads of it.
\<close>

definition atualizar_status_tarefa_app9 ::
  "bool \<Rightarrow> string \<Rightarrow> string \<Rightarrow> string option \<Rightarrow> string option
     \<Rightarrow> banco9 \<Rightarrow> bool option \<times> banco9" where
  "atualizar_status_tarefa_app9 mapeada tid st res err db =
     (if \<not> mapeada then (None, db)
      else case buscar_assincrona tid db of
        None \<Rightarrow> (None, db)
      | Some t0 \<Rightarrow>
          (case status_de_nome st of
             None \<Rightarrow> (None, db)
           | Some s \<Rightarrow>
               let t1 = t0\<lparr>ta_status := s\<rparr>;
                   t2 = (case res of
                           Some r \<Rightarrow> t1\<lparr>ta_resultado := Some (VStr r)\<rparr>
                         | None \<Rightarrow> t1);
                   t3 = (case err of Some e \<Rightarrow> t2\<lparr>ta_erro := Some e\<rparr> | None \<Rightarrow> t2)
               in (None, gravar ta_task_id tid t3 db)))"

section \<open>app9: status query and submission\<close>

text \<open>The in-process request counters \<open>contador_requisicoes\<close> and
  \<open>registrar_requisicao(tipo)\<close>.\<close>

record contador =
  total :: nat
  previsoes_sincronas :: nat
  previsoes_assincronas :: nat
  treinamentos_sincronos :: nat
  treinamentos_assincronos :: nat
  consultas :: nat
  erros :: nat

definition registrar_requisicao :: "string \<Rightarrow> contador \<Rightarrow> contador" where
  "registrar_requisicao nome c =
     (let c1 = c\<lparr>total := total c + 1\<rparr>
      in if nome = ''total'' then c1\<lparr>total := total c1 + 1\<rparr>
         else if nome = ''previsoes_sincronas''
           then c1\<lparr>previsoes_sincronas := previsoes_sincronas c1 + 1\<rparr>
         else if nome = ''previsoes_assincronas''
           then c1\<lparr>previsoes_assincronas := previsoes_assincronas c1 + 1\<rparr>
         else if nome = ''treinamentos_sincronos''
           then c1\<lparr>treinamentos_sincronos := treinamentos_sincronos c1 + 1\<rparr>
         else if nome = ''treinamentos_assincronos''
           then c1\<lparr>treinamentos_assincronos := treinamentos_assincronos c1 + 1\<rparr>
         else if nome = ''consultas'' then c1\<lparr>consultas := consultas c1 + 1\<rparr>
         else if nome = ''erros'' then c1\<lparr>erros := erros c1 + 1\<rparr>
         else c1)"

text \<open>
  \<open>class StatusTarefaResponse(BaseModel)\<close> of \<open>app9/api/schemas.py\<close>. Constructing
  it validates \<open>tipo\<close> against \<open>TipoTarefaEnum\<close>, \<open>status\<close> against
  \<open>StatusTarefaEnum\<close> and \<open>resultado\<close> against \<open>Optional[Dict[str, Any]]\<close>;
  \<open>duracao\<close> is never passed and keeps its default \<open>None\<close>.
\<close>

record StatusTarefaResponse =
  sr_task_id :: string
  sr_tipo :: string
  sr_status :: string
  sr_timestamp_criacao :: tempo
  sr_timestamp_inicio :: "tempo option"
  sr_timestamp_fim :: "tempo option"
  sr_resultado :: "valor option"
  sr_erro :: "string option"
  sr_duracao :: "tempo option"

definition TipoTarefaEnum :: "string list" where
  "TipoTarefaEnum = [''TREINAMENTO'', ''PREVISAO'', ''PREVISAO_LOTE'', ''OUTRO'']"

definition StatusTarefaEnum9 :: "string list" where
  "StatusTarefaEnum9 = [''PENDENTE'', ''EM_PROGRESSO'', ''CONCLUIDO'', ''FALHA'', ''CANCELADO'']"

fun dict_ou_nulo :: "valor option \<Rightarrow> bool" where
  "dict_ou_nulo None = True"
| "dict_ou_nulo (Some (VDict d)) = True"
| "dict_ou_nulo (Some v) = False"

definition novo_StatusTarefaResponse ::
  "string \<Rightarrow> string \<Rightarrow> string \<Rightarrow> tempo \<Rightarrow> tempo option \<Rightarrow> tempo option \<Rightarrow> valor option
     \<Rightarrow> string option \<Rightarrow> excecao + StatusTarefaResponse" where
  "novo_StatusTarefaResponse tid st tp criacao inicio fim res err =
     (if tp \<in> set TipoTarefaEnum \<and> st \<in> set StatusTarefaEnum9 \<and> dict_ou_nulo res
      then Inr \<lparr>sr_task_id = tid, sr_tipo = tp, sr_status = st,
                sr_timestamp_criacao = criacao, sr_timestamp_inicio = inicio,
                sr_timestamp_fim = fim, sr_resultado = res, sr_erro = err,
                sr_duracao = None\<rparr>
      else Inl (ValidationError ''StatusTarefaResponse''))"

text \<open>
  \<open>status_tarefa(task_id, db)\<close> of \<open>app9/api/endpoints.py\<close>. \<open>celery\<close> is
  what \<open>celery_app.AsyncResult(task_id)\<close> gives: its \<open>state\<close>, its \<open>result\<close>
  and the text \<open>str(task_result.result)\<close>, or the exception the result backend
  raises; \<open>agora\<close> is \<open>datetime.now()\<close>. The
  fallback for an id without a row runs inside a \<open>try\<close> whose bare \<open>except\<close>
  turns every exception, a validation error of the response included, into the
  404 answer.
\<close>

definition nao_encontrada :: "string \<Rightarrow> excecao" where
  "nao_encontrada tid = HTTPException 404 (''Tarefa com ID '' @ tid @ '' nao encontrada'')"

definition status_tarefa ::
  "(excecao + string \<times> valor \<times> string) \<Rightarrow> tempo \<Rightarrow> string
     \<Rightarrow> banco9 \<Rightarrow> contador \<Rightarrow> (excecao + StatusTarefaResponse) \<times> banco9 \<times> contador" where
  "status_tarefa celery agora tid db c =
     (let c1 = registrar_requisicao ''consultas'' c
      in case buscar_assincrona tid db of
        Some t \<Rightarrow>
          (novo_StatusTarefaResponse (ta_task_id t) (valor_status (ta_status t))
             (valor_tipo (ta_tipo t)) (ta_timestamp_criacao t) (ta_timestamp_inicio t)
             (ta_timestamp_fim t) (ta_resultado t) (ta_erro t), db, c1)
      | None \<Rightarrow>
          (case celery of
             Inl _ \<Rightarrow> (Inl (nao_encontrada tid), db, c1)
           | Inr (estado, res, str_res) \<Rightarrow>
               let r = (if estado = ''PENDING''
                        then novo_StatusTarefaResponse tid ''PENDENTE'' ''desconhecido''
                               agora None None None None
                        else if estado = ''STARTED''
                        then novo_StatusTarefaResponse tid ''EM_PROCESSAMENTO''
                               ''desconhecido'' agora (Some agora) None None None
                        else if estado = ''SUCCESS''
                        then novo_StatusTarefaResponse tid ''CONCLUIDA'' ''desconhecido''
                               agora (Some agora) (Some agora) (Some res) None
                        else novo_StatusTarefaResponse tid ''FALHA'' ''desconhecido''
                               agora None None None (Some str_res))
               in (case r of
                     Inl _ \<Rightarrow> (Inl (nao_encontrada tid), db, c1)
                   | Inr resposta \<Rightarrow> (Inr resposta, db, c1))))"









section \<open>Facts about tables and the status write\<close>

lemma buscar_chave: "buscar chave tid db = Some t \<Longrightarrow> chave t = tid"
  unfolding buscar_def by (induction db) (auto split: if_splits)

lemma buscar_gravar_mesma:
  "buscar chave tid db = Some t \<Longrightarrow> chave nova = tid
     \<Longrightarrow> buscar chave tid (gravar chave tid nova db) = Some nova"
  unfolding buscar_def by (induction db) (auto split: if_splits)

lemma buscar_apos_inserir:
  "buscar chave tid db = None \<Longrightarrow> chave nova = tid
     \<Longrightarrow> buscar chave tid (db @ [nova]) = Some nova"
  unfolding buscar_def by (induction db) (auto split: if_splits)


lemma buscar_gravar_renomeada:
  "buscar chave tid db = Some t \<Longrightarrow> buscar chave novo db = None \<Longrightarrow> chave nova = novo
     \<Longrightarrow> buscar chave novo (gravar chave tid nova db) = Some nova"
  unfolding buscar_def by (induction db) (auto split: if_splits)

lemma update_nao_vazio: "AList.update k v xs \<noteq> []"
  by (cases xs) auto

text \<open>The row that \<open>atualizar_status_tarefa\<close> leaves under an id that has one.\<close>

lemma atualizar_achada:
  assumes "buscar_tarefa tid db = Some tz"
  shows "buscar_tarefa tid (snd (atualizar_status_tarefa tid st res err d a db)) =
    Some (tz\<lparr>status := st,
              resultado := (if verdadeiro_dict res then res else resultado tz),
              erro := (if verdadeiro_str err then err else erro tz),
              duracao := (case timestamp_inicio tz of
                            Some i \<Rightarrow> if st \<in> set [''concluida'', ''falha'']
                                      then Some (d - i) else duracao tz
                          | None \<Rightarrow> duracao tz),
              timestamp_atualizacao := Some a\<rparr>)"
proof -
  have k: "task_id tz = tid"
    using assms buscar_chave unfolding buscar_tarefa_def by fastforce
  show ?thesis
    using assms k unfolding atualizar_status_tarefa_def buscar_tarefa_def
    by (cases "timestamp_inicio tz")
       (simp_all add: Let_def buscar_gravar_mesma [where t = tz])
qed

lemma escrita_em_progresso:
  assumes "buscar_tarefa tid db = Some tz"
  shows "buscar_tarefa tid
          (snd (atualizar_status_tarefa tid ''em_progresso'' None None a a db)) =
         Some (tz\<lparr>status := ''em_progresso'', timestamp_atualizacao := Some a\<rparr>)"
  using atualizar_achada [OF assms, of "''em_progresso''" None None a a]
  by (simp split: option.splits)

text \<open>The rows that one run of a worker task leaves: after its first write and after
  its last.\<close>

lemma treinar_modelo_claim:
  assumes "buscar_tarefa tid db = Some tz"
  shows "buscar_tarefa tid (fst (snd (treinar_modelo mt ma l tid alg db))) =
    Some (tz\<lparr>status := ''em_progresso'', timestamp_atualizacao := Some (l_claim l)\<rparr>)"
  using escrita_em_progresso [OF assms, of "l_claim l"]
  by (cases mt) (simp_all add: treinar_modelo_def Let_def)

lemma realizar_previsao_claim:
  assumes "buscar_tarefa tid db = Some tz"
  shows "buscar_tarefa tid (fst (snd (realizar_previsao mp ma l tid db))) =
    Some (tz\<lparr>status := ''em_progresso'', timestamp_atualizacao := Some (l_claim l)\<rparr>)"
  using escrita_em_progresso [OF assms, of "l_claim l"]
  by (cases mp) (auto simp add: realizar_previsao_def Let_def)

lemma treinar_modelo_sucesso:
  assumes "buscar_tarefa tid db = Some tz"
  shows "buscar_tarefa tid (snd (snd (treinar_modelo (Inr m) ma l tid alg db))) =
    Some (tz\<lparr>status := ''concluida'',
              resultado := Some (AList.update ''timestamp'' (VStr (l_iso l))
                         (AList.update ''tempo_treinamento'' (VNum (l_exec l))
                           (AList.update ''algoritmo'' (VStr (ou_str alg ma)) m))),
              duracao := (case timestamp_inicio tz of
                            Some i \<Rightarrow> Some (l_fim_d l - i) | None \<Rightarrow> duracao tz),
              timestamp_atualizacao := Some (l_fim_a l)\<rparr>)"
  using atualizar_achada [OF escrita_em_progresso [OF assms, of "l_claim l"],
      of "''concluida''" _ None "l_fim_d l" "l_fim_a l"]
  by (simp add: treinar_modelo_def Let_def update_nao_vazio split: option.splits)

lemma realizar_previsao_sucesso:
  assumes "buscar_tarefa tid db = Some tz"
  shows "buscar_tarefa tid (snd (snd (realizar_previsao (Inr (p, c)) ma l tid db))) =
    Some (tz\<lparr>status := ''concluida'',
              resultado := Some [(''preco_previsto'', p), (''confianca'', c),
                                 (''modelo_usado'', VStr ma),
                                 (''tempo_predicao'', VNum (l_exec l)),
                                 (''timestamp'', VStr (l_iso l))],
              duracao := (case timestamp_inicio tz of
                            Some i \<Rightarrow> Some (l_fim_d l - i) | None \<Rightarrow> duracao tz),
              timestamp_atualizacao := Some (l_fim_a l)\<rparr>)"
  using atualizar_achada [OF escrita_em_progresso [OF assms, of "l_claim l"],
      of "''concluida''" _ None "l_fim_d l" "l_fim_a l"]
  by (simp add: realizar_previsao_def Let_def split: option.splits)

lemma treinar_modelo_falha:
  assumes "buscar_tarefa tid db = Some tz"
  shows "buscar_tarefa tid (snd (snd (treinar_modelo (Inl msg) ma l tid alg db))) =
    Some (tz\<lparr>status := ''falha'',
              erro := (if msg = [] then erro tz else Some msg),
              duracao := (case timestamp_inicio tz of
                            Some i \<Rightarrow> Some (l_fim_d l - i) | None \<Rightarrow> duracao tz),
              timestamp_atualizacao := Some (l_fim_a l)\<rparr>)"
  using atualizar_achada [OF escrita_em_progresso [OF assms, of "l_claim l"],
      of "''falha''" None "Some msg" "l_fim_d l" "l_fim_a l"]
  by (simp add: treinar_modelo_def Let_def split: option.splits)

lemma realizar_previsao_falha:
  assumes "buscar_tarefa tid db = Some tz"
  shows "buscar_tarefa tid (snd (snd (realizar_previsao (Inl msg) ma l tid db))) =
    Some (tz\<lparr>status := ''falha'',
              erro := (if msg = [] then erro tz else Some msg),
              duracao := (case timestamp_inicio tz of
                            Some i \<Rightarrow> Some (l_fim_d l - i) | None \<Rightarrow> duracao tz),
              timestamp_atualizacao := Some (l_fim_a l)\<rparr>)"
  using atualizar_achada [OF escrita_em_progresso [OF assms, of "l_claim l"],
      of "''falha''" None "Some msg" "l_fim_d l" "l_fim_a l"]
  by (simp add: realizar_previsao_def Let_def split: option.splits)






section \<open>The claims\<close>

text \<open>
  C1, as amended. When a worker processes a message whose task has a row, its first write
  sets the status of the row to \<open>em_progresso\<close> whatever the row's current status is:
  it is a read followed by an unconditional write that changes the status and
  \<open>timestamp_atualizacao\<close> only (\<open>timestamp_inicio\<close> was set at submission and
  stays). The message is never abandoned: the task raises exactly when the executor
  raises, and it leaves the row \<open>concluida\<close> when the executor returned and
  \<open>falha\<close> when it raised, whatever the status was before.
\<close>

theorem claim_write_unconditional:
  "buscar_tarefa tid db = Some tz \<longrightarrow>
     buscar_tarefa tid (fst (snd (treinar_modelo mt ma l tid alg db))) =
       Some (tz\<lparr>status := ''em_progresso'', timestamp_atualizacao := Some (l_claim l)\<rparr>) \<and>
     buscar_tarefa tid (fst (snd (realizar_previsao mp ma l tid db))) =
       Some (tz\<lparr>status := ''em_progresso'', timestamp_atualizacao := Some (l_claim l)\<rparr>) \<and>
     isl (fst (treinar_modelo mt ma l tid alg db)) = isl mt \<and>
     isl (fst (realizar_previsao mp ma l tid db)) = isl mp \<and>
     map_option status (buscar_tarefa tid (snd (snd (treinar_modelo mt ma l tid alg db)))) =
       Some (if isl mt then ''falha'' else ''concluida'') \<and>
     map_option status (buscar_tarefa tid (snd (snd (realizar_previsao mp ma l tid db)))) =
       Some (if isl mp then ''falha'' else ''concluida'')"
  (is "_ \<longrightarrow> ?C")
proof
  assume z: "buscar_tarefa tid db = Some tz"
  have a: "isl (fst (treinar_modelo mt ma l tid alg db)) = isl mt"
    by (cases mt) (simp_all add: treinar_modelo_def Let_def)
  have b: "isl (fst (realizar_previsao mp ma l tid db)) = isl mp"
    by (cases mp) (auto simp add: realizar_previsao_def Let_def)
  have c: "map_option status
      (buscar_tarefa tid (snd (snd (treinar_modelo mt ma l tid alg db)))) =
       Some (if isl mt then ''falha'' else ''concluida'')"
    by (cases mt) (simp_all add: treinar_modelo_sucesso [OF z] treinar_modelo_falha [OF z])
  have d: "map_option status
      (buscar_tarefa tid (snd (snd (realizar_previsao mp ma l tid db)))) =
       Some (if isl mp then ''falha'' else ''concluida'')"
    by (cases mp)
       (auto simp add: realizar_previsao_sucesso [OF z] realizar_previsao_falha [OF z])
  show ?C
    using a b c d treinar_modelo_claim [OF z] realizar_previsao_claim [OF z] by simp
qed

theorem claim_write_unconditional_witness:
  "buscar_tarefa ''t1''
     (fst (snd (treinar_modelo (Inr [(''mae'', VNum 4)]) ''linear_regression''
        \<lparr>l_claim = 40, l_exec = 3, l_iso = ''2024-01-01T00:00:40'', l_fim_d = 50,
         l_fim_a = 51\<rparr> ''t1'' None
        [\<lparr>task_id = ''t1'', tipo = ''treinamento'', status = ''concluida'',
          dados_entrada = None, resultado = Some [(''mae'', VNum 3)], erro = None,
          timestamp_inicio = Some 10, timestamp_atualizacao = Some 21,
          duracao = Some 10\<rparr>])))
   = Some \<lparr>task_id = ''t1'', tipo = ''treinamento'', status = ''em_progresso'',
          dados_entrada = None, resultado = Some [(''mae'', VNum 3)], erro = None,
          timestamp_inicio = Some 10, timestamp_atualizacao = Some 40,
          duracao = Some 10\<rparr>"
  using claim_write_unconditional [where tid = "''t1''"
      and mt = "Inr [(''mae'', VNum 4)]" and ma = "''linear_regression''" and alg = None
      and l = "\<lparr>l_claim = 40, l_exec = 3, l_iso = ''2024-01-01T00:00:40'', l_fim_d = 50,
         l_fim_a = 51\<rparr>"
      and tz = "\<lparr>task_id = ''t1'', tipo = ''treinamento'', status = ''concluida'',
          dados_entrada = None, resultado = Some [(''mae'', VNum 3)], erro = None,
          timestamp_inicio = Some 10, timestamp_atualizacao = Some 21,
          duracao = Some 10\<rparr>"
      and db = "[\<lparr>task_id = ''t1'', tipo = ''treinamento'', status = ''concluida'',
          dados_entrada = None, resultado = Some [(''mae'', VNum 3)], erro = None,
          timestamp_inicio = Some 10, timestamp_atualizacao = Some 21,
          duracao = Some 10\<rparr>]"]
  by (simp add: buscar_tarefa_def buscar_def)

text \<open>The claim as stated fails: a worker that receives the message of a task already
  \<open>concluida\<close> sets the row to \<open>em_progresso\<close>, runs the executor again and
  rewrites the row.\<close>

theorem claim_guard_counterexample:
  "treinar_modelo (Inl ''boom'') ''linear_regression''
     \<lparr>l_claim = 40, l_exec = 3, l_iso = ''2024-01-01T00:00:40'', l_fim_d = 50,
      l_fim_a = 51\<rparr> ''t1'' None
     [\<lparr>task_id = ''t1'', tipo = ''treinamento'', status = ''concluida'',
       dados_entrada = None, resultado = Some [(''mae'', VNum 3)], erro = None,
       timestamp_inicio = Some 10, timestamp_atualizacao = Some 21,
       duracao = Some 10\<rparr>]
   = (Inl (Excecao ''boom''),
      [\<lparr>task_id = ''t1'', tipo = ''treinamento'', status = ''em_progresso'',
        dados_entrada = None, resultado = Some [(''mae'', VNum 3)], erro = None,
        timestamp_inicio = Some 10, timestamp_atualizacao = Some 40,
        duracao = Some 10\<rparr>],
      [\<lparr>task_id = ''t1'', tipo = ''treinamento'', status = ''falha'',
        dados_entrada = None, resultado = Some [(''mae'', VNum 3)], erro = Some ''boom'',
        timestamp_inicio = Some 10, timestamp_atualizacao = Some 51,
        duracao = Some 40\<rparr>])"
  by (simp add: treinar_modelo_def atualizar_status_tarefa_def buscar_tarefa_def buscar_def
        Let_def)

text \<open>
  C2, as amended. A status write on a row that exists always stores the requested status,
  whatever the current one, terminal or not. Writing the same status, result and error a
  second time leaves status, result, error and \<open>timestamp_inicio\<close> as the first
  write left them and sets \<open>timestamp_atualizacao\<close> to the clock reading of the
  second write. The duration is taken anew, from the clock reading of the second write,
  only when the status written is \<open>concluida\<close> or \<open>falha\<close> and
  \<open>timestamp_inicio\<close> is set; otherwise it stays as it was before both writes.
\<close>

theorem terminal_write_repeatable:
  "buscar_tarefa tid db = Some tz \<longrightarrow>
     map_option status
       (buscar_tarefa tid (snd (atualizar_status_tarefa tid st res err d a db))) = Some st \<and>
     map_option status
       (buscar_tarefa tid (snd (atualizar_status_tarefa tid st res err d' a'
          (snd (atualizar_status_tarefa tid st res err d a db))))) = Some st \<and>
     map_option resultado
       (buscar_tarefa tid (snd (atualizar_status_tarefa tid st res err d' a'
          (snd (atualizar_status_tarefa tid st res err d a db))))) =
     map_option resultado
       (buscar_tarefa tid (snd (atualizar_status_tarefa tid st res err d a db))) \<and>
     map_option erro
       (buscar_tarefa tid (snd (atualizar_status_tarefa tid st res err d' a'
          (snd (atualizar_status_tarefa tid st res err d a db))))) =
     map_option erro
       (buscar_tarefa tid (snd (atualizar_status_tarefa tid st res err d a db))) \<and>
     map_option timestamp_atualizacao
       (buscar_tarefa tid (snd (atualizar_status_tarefa tid st res err d' a'
          (snd (atualizar_status_tarefa tid st res err d a db))))) = Some (Some a') \<and>
     map_option timestamp_inicio
       (buscar_tarefa tid (snd (atualizar_status_tarefa tid st res err d' a'
          (snd (atualizar_status_tarefa tid st res err d a db))))) =
     Some (timestamp_inicio tz) \<and>
     map_option duracao
       (buscar_tarefa tid (snd (atualizar_status_tarefa tid st res err d' a'
          (snd (atualizar_status_tarefa tid st res err d a db))))) =
     Some (case timestamp_inicio tz of
             Some i \<Rightarrow> if st \<in> set [''concluida'', ''falha'']
                       then Some (d' - i) else duracao tz
           | None \<Rightarrow> duracao tz)"
  (is "_ \<longrightarrow> ?C")
proof
  assume z: "buscar_tarefa tid db = Some tz"
  define dbu where "dbu = snd (atualizar_status_tarefa tid st res err d a db)"
  define tu where "tu = tz\<lparr>status := st,
              resultado := (if verdadeiro_dict res then res else resultado tz),
              erro := (if verdadeiro_str err then err else erro tz),
              duracao := (case timestamp_inicio tz of
                            Some i \<Rightarrow> if st \<in> set [''concluida'', ''falha'']
                                      then Some (d - i) else duracao tz
                          | None \<Rightarrow> duracao tz),
              timestamp_atualizacao := Some a\<rparr>"
  have u: "buscar_tarefa tid dbu = Some tu"
    unfolding dbu_def tu_def by (rule atualizar_achada [OF z])
  have dd: "buscar_tarefa tid (snd (atualizar_status_tarefa tid st res err d' a' dbu)) =
    Some (tu\<lparr>status := st,
              resultado := (if verdadeiro_dict res then res else resultado tu),
              erro := (if verdadeiro_str err then err else erro tu),
              duracao := (case timestamp_inicio tu of
                            Some i \<Rightarrow> if st \<in> set [''concluida'', ''falha'']
                                      then Some (d' - i) else duracao tu
                          | None \<Rightarrow> duracao tu),
              timestamp_atualizacao := Some a'\<rparr>)"
    by (rule atualizar_achada [OF u])
  have r: "resultado tu = (if verdadeiro_dict res then res else resultado tz)"
    and e: "erro tu = (if verdadeiro_str err then err else erro tz)"
    and s: "status tu = st"
    and i: "timestamp_inicio tu = timestamp_inicio tz"
    and k: "duracao tu = (case timestamp_inicio tz of
                            Some i \<Rightarrow> if st \<in> set [''concluida'', ''falha'']
                                      then Some (d - i) else duracao tz
                          | None \<Rightarrow> duracao tz)"
    by (simp_all add: tu_def)
  show ?C
    unfolding dbu_def [symmetric] using u dd r e s i k
    by (simp split: option.splits)
qed

theorem terminal_write_repeatable_witness:
  "map_option status
     (buscar_tarefa ''t1'' (snd (atualizar_status_tarefa ''t1'' ''concluida''
        (Some [(''mae'', VNum 3)]) None 60 61
        (snd (atualizar_status_tarefa ''t1'' ''concluida'' (Some [(''mae'', VNum 3)]) None
           50 51
           [\<lparr>task_id = ''t1'', tipo = ''treinamento'', status = ''em_progresso'',
              dados_entrada = None, resultado = None, erro = None,
              timestamp_inicio = Some 10, timestamp_atualizacao = Some 40,
              duracao = None\<rparr>]))))) = Some ''concluida'' \<and>
   map_option resultado
     (buscar_tarefa ''t1'' (snd (atualizar_status_tarefa ''t1'' ''concluida''
        (Some [(''mae'', VNum 3)]) None 60 61
        (snd (atualizar_status_tarefa ''t1'' ''concluida'' (Some [(''mae'', VNum 3)]) None
           50 51
           [\<lparr>task_id = ''t1'', tipo = ''treinamento'', status = ''em_progresso'',
              dados_entrada = None, resultado = None, erro = None,
              timestamp_inicio = Some 10, timestamp_atualizacao = Some 40,
              duracao = None\<rparr>]))))) =
   map_option resultado
     (buscar_tarefa ''t1''
        (snd (atualizar_status_tarefa ''t1'' ''concluida'' (Some [(''mae'', VNum 3)]) None
           50 51
           [\<lparr>task_id = ''t1'', tipo = ''treinamento'', status = ''em_progresso'',
              dados_entrada = None, resultado = None, erro = None,
              timestamp_inicio = Some 10, timestamp_atualizacao = Some 40,
              duracao = None\<rparr>]))) \<and>
   map_option timestamp_atualizacao
     (buscar_tarefa ''t1'' (snd (atualizar_status_tarefa ''t1'' ''concluida''
        (Some [(''mae'', VNum 3)]) None 60 61
        (snd (atualizar_status_tarefa ''t1'' ''concluida'' (Some [(''mae'', VNum 3)]) None
           50 51
           [\<lparr>task_id = ''t1'', tipo = ''treinamento'', status = ''em_progresso'',
              dados_entrada = None, resultado = None, erro = None,
              timestamp_inicio = Some 10, timestamp_atualizacao = Some 40,
              duracao = None\<rparr>]))))) = Some (Some 61) \<and>
   map_option duracao
     (buscar_tarefa ''t1'' (snd (atualizar_status_tarefa ''t1'' ''concluida''
        (Some [(''mae'', VNum 3)]) None 60 61
        (snd (atualizar_status_tarefa ''t1'' ''concluida'' (Some [(''mae'', VNum 3)]) None
           50 51
           [\<lparr>task_id = ''t1'', tipo = ''treinamento'', status = ''em_progresso'',
              dados_entrada = None, resultado = None, erro = None,
              timestamp_inicio = Some 10, timestamp_atualizacao = Some 40,
              duracao = None\<rparr>]))))) = Some (Some 50)"
  using terminal_write_repeatable [where tid = "''t1''" and st = "''concluida''"
      and res = "Some [(''mae'', VNum 3)]" and err = None and d = 50 and a = 51
      and d' = 60 and a' = 61
      and db = "[\<lparr>task_id = ''t1'', tipo = ''treinamento'', status = ''em_progresso'',
              dados_entrada = None, resultado = None, erro = None,
              timestamp_inicio = Some 10, timestamp_atualizacao = Some 40,
              duracao = None\<rparr>]"
      and tz = "\<lparr>task_id = ''t1'', tipo = ''treinamento'', status = ''em_progresso'',
              dados_entrada = None, resultado = None, erro = None,
              timestamp_inicio = Some 10, timestamp_atualizacao = Some 40,
              duracao = None\<rparr>"]
  by (simp add: buscar_tarefa_def buscar_def)

text \<open>The claim as stated fails: a later write overwrites a row that is
  \<open>concluida\<close>.\<close>

theorem terminal_overwrite_counterexample:
  "snd (atualizar_status_tarefa ''t1'' ''falha'' None (Some ''late failure'') 50 51
         [\<lparr>task_id = ''t1'', tipo = ''treinamento'', status = ''concluida'',
           dados_entrada = None, resultado = Some [(''mae'', VNum 3)], erro = None,
           timestamp_inicio = Some 10, timestamp_atualizacao = Some 21,
           duracao = Some 10\<rparr>])
   = [\<lparr>task_id = ''t1'', tipo = ''treinamento'', status = ''falha'',
       dados_entrada = None, resultado = Some [(''mae'', VNum 3)],
       erro = Some ''late failure'',
       timestamp_inicio = Some 10, timestamp_atualizacao = Some 51,
       duracao = Some 40\<rparr>]"
  by (simp add: atualizar_status_tarefa_def buscar_tarefa_def buscar_def Let_def)

text \<open>
  C3, as amended. For a row as submission creates it (result and error null) and one run
  of \<open>treinar_modelo\<close> or \<open>realizar_previsao\<close>: after the first write of the run
  both are still null; when the executor returns, the row is \<open>concluida\<close> with a
  non-empty result and a null error; when the executor raises, the row is \<open>falha\<close>
  with a null result, and its error is the text of the exception when that text is not
  empty and null when it is empty. In every case \<open>timestamp_atualizacao\<close> is the clock
  reading of the last write.
\<close>

theorem single_run_result_error:
  "buscar_tarefa tid db = Some tz \<and> resultado tz = None \<and> erro tz = None \<longrightarrow>
     map_option (\<lambda>t. (resultado t, erro t))
       (buscar_tarefa tid (fst (snd (treinar_modelo mt ma l tid alg db)))) =
       Some (None, None) \<and>
     map_option (\<lambda>t. (resultado t, erro t))
       (buscar_tarefa tid (fst (snd (realizar_previsao mp ma l tid db)))) =
       Some (None, None) \<and>
     map_option (\<lambda>t. (status t, verdadeiro_dict (resultado t), erro t, timestamp_atualizacao t))
       (buscar_tarefa tid (snd (snd (treinar_modelo (Inr m) ma l tid alg db)))) =
       Some (''concluida'', True, None, Some (l_fim_a l)) \<and>
     map_option (\<lambda>t. (status t, verdadeiro_dict (resultado t), erro t, timestamp_atualizacao t))
       (buscar_tarefa tid (snd (snd (realizar_previsao (Inr (p, c)) ma l tid db)))) =
       Some (''concluida'', True, None, Some (l_fim_a l)) \<and>
     map_option (\<lambda>t. (status t, resultado t, erro t, timestamp_atualizacao t))
       (buscar_tarefa tid (snd (snd (treinar_modelo (Inl msg) ma l tid alg db)))) =
       Some (''falha'', None, if msg = [] then None else Some msg, Some (l_fim_a l)) \<and>
     map_option (\<lambda>t. (status t, resultado t, erro t, timestamp_atualizacao t))
       (buscar_tarefa tid (snd (snd (realizar_previsao (Inl msg) ma l tid db)))) =
       Some (''falha'', None, if msg = [] then None else Some msg, Some (l_fim_a l))"
  (is "_ \<longrightarrow> ?C")
proof
  assume h: "buscar_tarefa tid db = Some tz \<and> resultado tz = None \<and> erro tz = None"
  then have z: "buscar_tarefa tid db = Some tz" by simp
  show ?C
    using h
    by (simp add: treinar_modelo_claim [OF z] realizar_previsao_claim [OF z]
          treinar_modelo_sucesso [OF z] realizar_previsao_sucesso [OF z]
          treinar_modelo_falha [OF z] realizar_previsao_falha [OF z] update_nao_vazio)
qed

theorem single_run_result_error_witness:
  "map_option (\<lambda>t. (status t, verdadeiro_dict (resultado t), erro t, timestamp_atualizacao t))
     (buscar_tarefa ''t1''
        (snd (snd (realizar_previsao (Inr (VNum 250000, VNum 90)) ''linear_regression''
           \<lparr>l_claim = 40, l_exec = 3, l_iso = ''2024-01-01T00:00:40'', l_fim_d = 50,
         l_fim_a = 51\<rparr> ''t1''
           [\<lparr>task_id = ''t1'', tipo = ''treinamento'', status = ''pendente'',
          dados_entrada = None, resultado = None, erro = None,
          timestamp_inicio = Some 10, timestamp_atualizacao = Some 11,
          duracao = None\<rparr>])))) =
     Some (''concluida'', True, None, Some 51) \<and>
   map_option (\<lambda>t. (status t, resultado t, erro t, timestamp_atualizacao t))
     (buscar_tarefa ''t1''
        (snd (snd (treinar_modelo (Inl ''boom'') ''linear_regression''
           \<lparr>l_claim = 40, l_exec = 3, l_iso = ''2024-01-01T00:00:40'', l_fim_d = 50,
         l_fim_a = 51\<rparr> ''t1'' None
           [\<lparr>task_id = ''t1'', tipo = ''treinamento'', status = ''pendente'',
          dados_entrada = None, resultado = None, erro = None,
          timestamp_inicio = Some 10, timestamp_atualizacao = Some 11,
          duracao = None\<rparr>])))) =
     Some (''falha'', None, Some ''boom'', Some 51)"
  using single_run_result_error [where tid = "''t1''"
      and db = "[\<lparr>task_id = ''t1'', tipo = ''treinamento'', status = ''pendente'',
          dados_entrada = None, resultado = None, erro = None,
          timestamp_inicio = Some 10, timestamp_atualizacao = Some 11,
          duracao = None\<rparr>]"
      and tz = "\<lparr>task_id = ''t1'', tipo = ''treinamento'', status = ''pendente'',
          dados_entrada = None, resultado = None, erro = None,
          timestamp_inicio = Some 10, timestamp_atualizacao = Some 11,
          duracao = None\<rparr>"
      and p = "VNum 250000" and c = "VNum 90" and msg = "''boom''"
      and ma = "''linear_regression''" and alg = None
      and l = "\<lparr>l_claim = 40, l_exec = 3, l_iso = ''2024-01-01T00:00:40'', l_fim_d = 50,
         l_fim_a = 51\<rparr>"]
  by (simp add: buscar_tarefa_def buscar_def)

text \<open>The claim as stated fails: a row that failed and whose message is delivered again
  ends \<open>concluida\<close> with both a result and the error of the first run.\<close>

theorem result_error_both_set_counterexample:
  "snd (snd (treinar_modelo (Inr [(''mae'', VNum 3)]) ''linear_regression''
      \<lparr>l_claim = 70, l_exec = 5, l_iso = ''2024-01-01T00:01:10'', l_fim_d = 80,
         l_fim_a = 81\<rparr> ''t1'' None
      (snd (snd (treinar_modelo (Inl ''boom'') ''linear_regression''
         \<lparr>l_claim = 40, l_exec = 3, l_iso = ''2024-01-01T00:00:40'', l_fim_d = 50,
         l_fim_a = 51\<rparr> ''t1'' None
         [\<lparr>task_id = ''t1'', tipo = ''treinamento'', status = ''pendente'',
          dados_entrada = None, resultado = None, erro = None,
          timestamp_inicio = Some 10, timestamp_atualizacao = Some 11,
          duracao = None\<rparr>])))))
   = [\<lparr>task_id = ''t1'', tipo = ''treinamento'', status = ''concluida'',
       dados_entrada = None,
       resultado = Some [(''mae'', VNum 3), (''algoritmo'', VStr ''linear_regression''),
                         (''tempo_treinamento'', VNum 5),
                         (''timestamp'', VStr ''2024-01-01T00:01:10'')],
       erro = Some ''boom'',
       timestamp_inicio = Some 10, timestamp_atualizacao = Some 81, duracao = Some 70\<rparr>]"
  by (simp add: treinar_modelo_def atualizar_status_tarefa_def buscar_tarefa_def buscar_def
        Let_def)

text \<open>
  C4, as amended. For a fresh task id, the status query right after \<open>prever\<close> (or
  \<open>treinar\<close> with at least ten records) answers \<open>pendente\<close> with null result and
  error, \<open>timestamp_inicio\<close> equal to the submission time and
  \<open>timestamp_atualizacao\<close> equal to the insertion time. \<open>timestamp_inicio\<close> is
  set at submission and no status write changes it.
\<close>

theorem status_after_submit:
  "(buscar_tarefa novo_id db = None \<longrightarrow>
      fst (verificar_status_tarefa novo_id
             (fst (snd (prever novo_id agora agora_padrao dados db fila)))) =
        Inr \<lparr>st_task_id = novo_id, st_status = ''pendente'', st_resultado = None,
             st_erro = None, st_timestamp_inicio = agora,
             st_timestamp_atualizacao = agora_padrao\<rparr>) \<and>
   (buscar_tarefa novo_id db = None \<and> 10 \<le> length registros \<longrightarrow>
      fst (verificar_status_tarefa novo_id
             (fst (snd (treinar novo_id agora agora_padrao registros algoritmo db fila)))) =
        Inr \<lparr>st_task_id = novo_id, st_status = ''pendente'', st_resultado = None,
             st_erro = None, st_timestamp_inicio = agora,
             st_timestamp_atualizacao = agora_padrao\<rparr>) \<and>
   (buscar_tarefa tid db = Some tz \<longrightarrow>
      map_option timestamp_inicio
        (buscar_tarefa tid (snd (atualizar_status_tarefa tid st res err d a db))) =
      Some (timestamp_inicio tz))"
  (is "(_ \<longrightarrow> ?P) \<and> (_ \<longrightarrow> ?T) \<and> (_ \<longrightarrow> ?W)")
proof (intro conjI impI)
  assume h: "buscar_tarefa novo_id db = None"
  then have "buscar task_id novo_id db = None" by (simp add: buscar_tarefa_def)
  from buscar_apos_inserir [OF this] h
  show ?P
    by (simp add: prever_def prever_registrar_def inserir_def verificar_status_tarefa_def
          buscar_tarefa_def novo_StatusTarefa_def StatusTarefaEnum_def Let_def)
next
  assume h: "buscar_tarefa novo_id db = None \<and> 10 \<le> length registros"
  then have "buscar task_id novo_id db = None" by (simp add: buscar_tarefa_def)
  from buscar_apos_inserir [OF this] h
  show ?T
    by (simp add: treinar_def treinar_registrar_def inserir_def verificar_status_tarefa_def
          buscar_tarefa_def novo_StatusTarefa_def StatusTarefaEnum_def Let_def)
next
  assume z: "buscar_tarefa tid db = Some tz"
  show ?W
    by (simp add: atualizar_achada [OF z])
qed

theorem status_after_submit_witness:
  "fst (verificar_status_tarefa ''t2''
          (fst (snd (prever ''t2'' 100 101 [(''area'', VNum 50)]
              [\<lparr>task_id = ''t1'', tipo = ''treinamento'', status = ''pendente'',
                dados_entrada = None, resultado = None, erro = None,
                timestamp_inicio = Some 10, timestamp_atualizacao = Some 11,
                duracao = None\<rparr>] [])))) =
     Inr \<lparr>st_task_id = ''t2'', st_status = ''pendente'', st_resultado = None,
          st_erro = None, st_timestamp_inicio = 100, st_timestamp_atualizacao = 101\<rparr> \<and>
   fst (verificar_status_tarefa ''t2''
          (fst (snd (treinar ''t2'' 100 101 (replicate 10 [(''area'', VNum 50)])
                       ''ridge''
                           [\<lparr>task_id = ''t1'', tipo = ''treinamento'',
                             status = ''pendente'', dados_entrada = None,
                             resultado = None, erro = None,
                             timestamp_inicio = Some 10,
                             timestamp_atualizacao = Some 11, duracao = None\<rparr>] [])))) =
     Inr \<lparr>st_task_id = ''t2'', st_status = ''pendente'', st_resultado = None,
          st_erro = None, st_timestamp_inicio = 100, st_timestamp_atualizacao = 101\<rparr> \<and>
   map_option timestamp_inicio
     (buscar_tarefa ''t1''
        (snd (atualizar_status_tarefa ''t1'' ''concluida'' (Some [(''mae'', VNum 3)]) None
           50 51
               [\<lparr>task_id = ''t1'', tipo = ''treinamento'', status = ''pendente'',
                 dados_entrada = None, resultado = None, erro = None,
                 timestamp_inicio = Some 10, timestamp_atualizacao = Some 11,
                 duracao = None\<rparr>]))) = Some (Some 10)"
  using status_after_submit [where novo_id = "''t2''" and db =
      "[\<lparr>task_id = ''t1'', tipo = ''treinamento'', status = ''pendente'',
         dados_entrada = None, resultado = None, erro = None,
         timestamp_inicio = Some 10, timestamp_atualizacao = Some 11, duracao = None\<rparr>]"
      and tz =
             "\<lparr>task_id = ''t1'', tipo = ''treinamento'', status = ''pendente'',
               dados_entrada = None, resultado = None, erro = None,
               timestamp_inicio = Some 10, timestamp_atualizacao = Some 11,
               duracao = None\<rparr>"
      and tid = "''t1''" and agora = 100 and agora_padrao = 101
      and dados = "[(''area'', VNum 50)]" and fila = "[]"
      and registros = "replicate 10 [(''area'', VNum 50)]" and algoritmo = "''ridge''"
      and st = "''concluida''" and res = "Some [(''mae'', VNum 3)]" and err = None
      and d = 50 and a = 51]
  by (simp add: buscar_tarefa_def buscar_def)

text \<open>The claim as stated fails: the start timestamp is not null while the task is
  \<open>pendente\<close>.\<close>

theorem started_at_set_counterexample:
  "fst (verificar_status_tarefa ''t1''
          (fst (snd (prever ''t1'' 100 101 [(''area'', VNum 50)] [] [])))) =
     Inr \<lparr>st_task_id = ''t1'', st_status = ''pendente'', st_resultado = None,
          st_erro = None, st_timestamp_inicio = 100, st_timestamp_atualizacao = 101\<rparr> \<and>
   map_option timestamp_inicio
     (buscar_tarefa ''t1'' (fst (snd (prever ''t1'' 100 101 [(''area'', VNum 50)] [] []))))
     = Some (Some 100)"
  by (simp add: prever_def prever_registrar_def inserir_def verificar_status_tarefa_def
        buscar_tarefa_def buscar_def novo_StatusTarefa_def StatusTarefaEnum_def Let_def)

text \<open>
  C5. For every task id that has no row in the task table, the status query answers
  with the not-found signal (HTTP 404), never with a status response, and leaves the table
  as it was. In \<open>app9\<close> this holds whatever the Celery result backend reports for
  the id, because the fallback response is built with the type \<open>"desconhecido"\<close>,
  which the response schema rejects.
\<close>

theorem unknown_id_not_found:
  "(buscar_tarefa tid db = None \<longrightarrow>
      verificar_status_tarefa tid db =
        (Inl (HTTPException 404 (''Tarefa nao encontrada: '' @ tid)), db)) \<and>
   (buscar_assincrona tid dba = None \<longrightarrow>
      fst (status_tarefa celery agora tid dba c) = Inl (nao_encontrada tid) \<and>
      fst (snd (status_tarefa celery agora tid dba c)) = dba)"
  by (auto simp add: verificar_status_tarefa_def status_tarefa_def Let_def
        novo_StatusTarefaResponse_def TipoTarefaEnum_def split: sum.splits prod.splits)

theorem unknown_id_not_found_witness:
  "verificar_status_tarefa ''t9''
     [\<lparr>task_id = ''t1'', tipo = ''predicao'', status = ''pendente'', dados_entrada = None,
       resultado = None, erro = None, timestamp_inicio = Some 10,
       timestamp_atualizacao = Some 11, duracao = None\<rparr>]
   = (Inl (HTTPException 404 ''Tarefa nao encontrada: t9''),
     [\<lparr>task_id = ''t1'', tipo = ''predicao'', status = ''pendente'', dados_entrada = None,
       resultado = None, erro = None, timestamp_inicio = Some 10,
       timestamp_atualizacao = Some 11, duracao = None\<rparr>]) \<and>
   fst (status_tarefa (Inr (''PENDING'', VNulo, ''None'')) 70 ''t9'' []
          \<lparr>total = 0, previsoes_sincronas = 0, previsoes_assincronas = 0,
           treinamentos_sincronos = 0, treinamentos_assincronos = 0, consultas = 0,
           erros = 0\<rparr>)
   = Inl (HTTPException 404 ''Tarefa com ID t9 nao encontrada'') \<and>
   fst (snd (status_tarefa (Inr (''PENDING'', VNulo, ''None'')) 70 ''t9'' []
          \<lparr>total = 0, previsoes_sincronas = 0, previsoes_assincronas = 0,
           treinamentos_sincronos = 0, treinamentos_assincronos = 0, consultas = 0,
           erros = 0\<rparr>)) = []"
  using unknown_id_not_found [where tid = "''t9''" and dba = "[]"
      and celery = "Inr (''PENDING'', VNulo, ''None'')" and agora = 70
      and c = "\<lparr>total = 0, previsoes_sincronas = 0, previsoes_assincronas = 0,
           treinamentos_sincronos = 0, treinamentos_assincronos = 0, consultas = 0,
           erros = 0\<rparr>"
      and db = "[\<lparr>task_id = ''t1'', tipo = ''predicao'', status = ''pendente'',
       dados_entrada = None, resultado = None, erro = None, timestamp_inicio = Some 10,
       timestamp_atualizacao = Some 11, duracao = None\<rparr>]"]
  by (simp add: buscar_tarefa_def buscar_assincrona_def buscar_def nao_encontrada_def)







text \<open>
  C9. For every argument \<open>dias\<close>, the periodic clean-up task
  \<open>limpar_tarefas_antigas\<close> raises before it deletes anything: the cut-off is computed
  with \<open>datetime.timedelta\<close>, looked up on the imported class \<open>datetime\<close>, which has
  no such attribute. The transaction is rolled back, so the task removes no row and the
  table is as it was.
\<close>

theorem cleanup_always_raises:
  "limpar_tarefas_antigas dias agora db =
     (Inl (AttributeError (''type object 'datetime.datetime' has no attribute ''
             @ [CHR 0x27] @ ''timedelta'' @ [CHR 0x27])), db)"
  by (simp add: limpar_tarefas_antigas_def getattr_datetime_def atributos_datetime_def)

text \<open>
  C10, as amended. Called with a task id that no row carries, the status updater creates
  no row and leaves the table unchanged, for every status, result and error argument. In
  \<open>app10\<close> it returns \<open>False\<close>; the updater of \<open>app9\<close> has no return value and
  gives \<open>None\<close>.
\<close>

theorem update_unknown_id:
  "(buscar_tarefa tid db = None \<longrightarrow>
      atualizar_status_tarefa tid st res err d a db = (False, db)) \<and>
   (buscar_assincrona tid dba = None \<longrightarrow>
      atualizar_status_tarefa_app9 mapeada tid st resa err dba = (None, dba))"
  by (simp add: atualizar_status_tarefa_def atualizar_status_tarefa_app9_def)

theorem update_unknown_id_witness:
  "atualizar_status_tarefa ''t2'' ''concluida'' (Some [(''mae'', VNum 3)]) None 50 51
     [\<lparr>task_id = ''t1'', tipo = ''predicao'', status = ''pendente'', dados_entrada = None,
       resultado = None, erro = None, timestamp_inicio = Some 10,
       timestamp_atualizacao = Some 11, duracao = None\<rparr>]
   = (False,
     [\<lparr>task_id = ''t1'', tipo = ''predicao'', status = ''pendente'', dados_entrada = None,
       resultado = None, erro = None, timestamp_inicio = Some 10,
       timestamp_atualizacao = Some 11, duracao = None\<rparr>]) \<and>
   atualizar_status_tarefa_app9 True ''t2'' ''CONCLUIDO'' (Some ''{}'') None [] = (None, [])"
  using update_unknown_id [where tid = "''t2''" and st = "''concluida''" and d = 50
      and a = 51 and res = "Some [(''mae'', VNum 3)]" and err = None and dba = "[]"
      and db = "[\<lparr>task_id = ''t1'', tipo = ''predicao'', status = ''pendente'',
       dados_entrada = None, resultado = None, erro = None, timestamp_inicio = Some 10,
       timestamp_atualizacao = Some 11, duracao = None\<rparr>]"]
    update_unknown_id [where tid = "''t2''" and st = "''CONCLUIDO''" and dba = "[]"
      and mapeada = True and resa = "Some ''{}''" and err = None]
  by (simp add: buscar_tarefa_def buscar_assincrona_def buscar_def)

text \<open>The claim as stated, that the updater returns \<open>False\<close>, fails for \<open>app9\<close>.\<close>

theorem update_returns_none_counterexample:
  "fst (atualizar_status_tarefa_app9 True ''t2'' ''EM_PROGRESSO'' None None []) \<noteq> Some False"
  by (simp add: atualizar_status_tarefa_app9_def buscar_assincrona_def buscar_def)

end
